theory Spec2Isabelle
  imports Complex_Main "HOL-Library.AList"
begin

section \<open>Python values, exceptions and results\<close>

text \<open>
  The orchestrator treats agent payloads as values of type \<open>Any\<close>.  The values that
  matter to the merge step are \<open>None\<close>, numbers, strings, lists, dictionaries with string
  keys (association lists in insertion order) and dataclass instances (their fields in
  declaration order).
\<close>

datatype pyval =
    VNone
  | VBool bool
  | VInt int
  | VFloat real
  | VStr string
  | VList "pyval list"
  | VDict "(string \<times> pyval) list"
  | VData "(string \<times> pyval) list"

text \<open>
  Exceptions carry their message (for \<open>HTTPException\<close>: status code and detail).  \<open>FileNotFoundError\<close> is a subclass of \<open>OSError\<close> and is modelled as
  \<open>OSError\<close>.  \<open>NonException\<close> stands for the classes that derive from \<open>BaseException\<close>
  only (\<open>CancelledError\<close>, \<open>KeyboardInterrupt\<close>, \<open>SystemExit\<close>), which
  \<open>except Exception\<close> does not catch.
\<close>

datatype exn =
    HTTPException nat string
  | UnsupportedDocumentError string
  | OSError string
  | TypeError string
  | OtherException string
  | NonException string

datatype 'a result = Return 'a | Raise exn

text \<open>\<open>str\<close> of a natural number: its decimal digits.\<close>

definition digit_char :: "nat \<Rightarrow> char" where
  "digit_char n = ''0123456789'' ! (n mod 10)"

fun str_nat :: "nat \<Rightarrow> string" where
  "str_nat n = (if n < 10 then [digit_char n] else str_nat (n div 10) @ [digit_char n])"

declare str_nat.simps [simp del]

text \<open>\<open>str(exc)\<close>: the message for the built-in classes, and
  \<open>"{status_code}: {detail}"\<close> for \<open>HTTPException\<close>.\<close>

fun str_exn :: "exn \<Rightarrow> string" where
  "str_exn (HTTPException code detail) = str_nat code @ '': '' @ detail"
| "str_exn (UnsupportedDocumentError m) = m"
| "str_exn (OSError m) = m"
| "str_exn (TypeError m) = m"
| "str_exn (OtherException m) = m"
| "str_exn (NonException m) = m"

fun is_Exception :: "exn \<Rightarrow> bool" where
  "is_Exception (NonException m) = False"
| "is_Exception e = True"

fun truthy :: "pyval \<Rightarrow> bool" where
  "truthy VNone = False"
| "truthy (VBool b) = b"
| "truthy (VInt i) = (i \<noteq> 0)"
| "truthy (VFloat r) = (r \<noteq> 0)"
| "truthy (VStr s) = (s \<noteq> [])"
| "truthy (VList xs) = (xs \<noteq> [])"
| "truthy (VDict kvs) = (kvs \<noteq> [])"
| "truthy (VData fs) = True"

fun is_dataclass :: "pyval \<Rightarrow> bool" where
  "is_dataclass (VData fs) = True"
| "is_dataclass v = False"

text \<open>\<open>dataclasses.asdict\<close>: recursive conversion of dataclass instances to dictionaries,
  descending into lists and dictionary values.\<close>

fun asdict :: "pyval \<Rightarrow> pyval" where
  "asdict (VData fs) = VDict (map (\<lambda>kv. (fst kv, asdict (snd kv))) fs)"
| "asdict (VList xs) = VList (map asdict xs)"
| "asdict (VDict kvs) = VDict (map (\<lambda>kv. (fst kv, asdict (snd kv))) kvs)"
| "asdict v = v"

text \<open>\<open>obj[key] = value\<close> with a string key: only a dictionary accepts it.  An existing
  key keeps its position, a new key goes last.\<close>

fun type_name :: "pyval \<Rightarrow> string" where
  "type_name VNone = ''NoneType''"
| "type_name (VBool b) = ''bool''"
| "type_name (VInt i) = ''int''"
| "type_name (VFloat r) = ''float''"
| "type_name (VStr s) = ''str''"
| "type_name (VList xs) = ''list''"
| "type_name (VDict kvs) = ''dict''"
| "type_name (VData fs) = ''object''"

fun setitem :: "pyval \<Rightarrow> string \<Rightarrow> pyval \<Rightarrow> pyval result" where
  "setitem (VDict kvs) k v = Return (VDict (AList.update k v kvs))"
| "setitem (VList xs) k v = Raise (TypeError ''list indices must be integers or slices, not str'')"
| "setitem obj k v =
     Raise (TypeError ([CHR 0x27] @ type_name obj @ [CHR 0x27]
                       @ '' object does not support item assignment''))"

text \<open>The built-in \<open>round(x, ndigits)\<close> on the exact value: to the nearest multiple of
  \<open>10 ^ - ndigits\<close>, ties to the even neighbour.\<close>

definition round_half_even :: "real \<Rightarrow> int" where
  "round_half_even y =
     (let f = \<lfloor>y\<rfloor>; d = y - of_int f
      in if d < 1 / 2 then f else if 1 / 2 < d then f + 1 else if even f then f else f + 1)"

definition py_round :: "real \<Rightarrow> nat \<Rightarrow> real" where
  "py_round x ndigits = of_int (round_half_even (x * 10 ^ ndigits)) / 10 ^ ndigits"

section \<open>The orchestrator (services/orchestrator.py)\<close>

record AgentOutcome =
  name :: string
  success :: bool
  payload :: pyval
  processing_time_seconds :: real
  error :: "string option"

text \<open>An agent's \<open>run\<close> coroutine, awaited on a document text: the wall-clock time the
  attempt took (the difference of the two \<open>perf_counter\<close> readings) and what it returned or
  raised.\<close>

type_synonym agent = "string \<Rightarrow> real \<times> pyval result"

definition timed :: "string \<Rightarrow> agent \<Rightarrow> string \<Rightarrow> AgentOutcome result" where
  "timed nm fn document_text =
     (case fn document_text of (elapsed, r) \<Rightarrow>
        (case r of
           Return p \<Rightarrow>
             Return \<lparr>name = nm, success = True, payload = p,
                     processing_time_seconds = py_round elapsed 3, error = None\<rparr>
         | Raise exc \<Rightarrow>
             if is_Exception exc
             then Return \<lparr>name = nm, success = False, payload = VNone,
                          processing_time_seconds = py_round elapsed 3,
                          error = Some (str_exn exc)\<rparr>
             else Raise exc))"

record orchestrator =
  summarizer :: agent
  entity_extractor :: agent
  sentiment_analyzer :: agent

text \<open>What a branch of the parallel graph hands back: an \<open>AgentOutcome\<close>, or any other
  object (kept as its \<open>str\<close>).\<close>

datatype raw_result = Outcome AgentOutcome | Other string

fun as_raw :: "AgentOutcome result \<Rightarrow> raw_result result" where
  "as_raw (Return oc) = Return (Outcome oc)"
| "as_raw (Raise e) = Raise e"

definition run_summary :: "orchestrator \<Rightarrow> string \<Rightarrow> raw_result result" where
  "run_summary orch document_text = as_raw (timed ''summary'' (summarizer orch) document_text)"

definition run_entities :: "orchestrator \<Rightarrow> string \<Rightarrow> raw_result result" where
  "run_entities orch document_text =
     as_raw (timed ''entities'' (entity_extractor orch) document_text)"

definition run_sentiment :: "orchestrator \<Rightarrow> string \<Rightarrow> raw_result result" where
  "run_sentiment orch document_text =
     as_raw (timed ''sentiment'' (sentiment_analyzer orch) document_text)"

definition graph :: "orchestrator \<Rightarrow> (string \<times> (string \<Rightarrow> raw_result result)) list" where
  "graph orch =
     [(''summary'', run_summary orch),
      (''entities'', run_entities orch),
      (''sentiment'', run_sentiment orch)]"

text \<open>
  Modelled from the spec: \<open>RunnableParallel.ainvoke\<close> (langchain_core) and the
  \<open>asyncio.gather\<close> it awaits are not part of the repository.  Sections 4.2 and 5 of the
  specification: all branches are issued on the same input, the caller waits for all of
  them (a join), no order of completion is guaranteed, and the output mapping is in the
  insertion order of the configuration.  A schedule \<open>rank\<close> gives each branch its
  completion time; branches finish in the order of their ranks.  A branch that raises
  makes the join raise (the first one to finish with an exception wins).
\<close>

definition completion_order :: "(nat \<Rightarrow> nat) \<Rightarrow> nat \<Rightarrow> nat list" where
  "completion_order rank n = sort_key rank [0..<n]"

fun gather :: "(nat \<times> 'a result) list \<Rightarrow> (nat \<times> 'a) list result" where
  "gather [] = Return []"
| "gather ((i, Raise e) # rest) = Raise e"
| "gather ((i, Return v) # rest) =
     (case gather rest of Raise e \<Rightarrow> Raise e | Return vs \<Rightarrow> Return ((i, v) # vs))"

definition ainvoke ::
  "(string \<times> (string \<Rightarrow> 'a result)) list \<Rightarrow> (nat \<Rightarrow> nat) \<Rightarrow> string \<Rightarrow> (string \<times> 'a) list result"
where
  "ainvoke steps rank input =
     (let finished = map (\<lambda>i. (i, snd (steps ! i) input))
                         (completion_order rank (length steps))
      in case gather finished of
           Raise e \<Rightarrow> Raise e
         | Return collected \<Rightarrow>
             Return (zip (map fst steps) (map snd (sort_key fst collected))))"

text \<open>The first loop of \<open>run\<close>: \<open>agent_outcomes[name] = ...\<close> for each raw result.\<close>

fun collect_outcomes ::
  "(string \<times> raw_result) list \<Rightarrow> (string \<times> AgentOutcome) list \<Rightarrow> (string \<times> AgentOutcome) list"
where
  "collect_outcomes [] agent_outcomes = agent_outcomes"
| "collect_outcomes ((nm, Outcome oc) # rest) agent_outcomes =
     collect_outcomes rest (AList.update nm oc agent_outcomes)"
| "collect_outcomes ((nm, Other s) # rest) agent_outcomes =
     collect_outcomes rest
       (AList.update nm
          \<lparr>name = nm, success = False, payload = VNone,
           processing_time_seconds = 0, error = Some s\<rparr>
          agent_outcomes)"

fun error_value :: "string option \<Rightarrow> pyval" where
  "error_value None = VNone"
| "error_value (Some e) = VStr e"

text \<open>The second loop of \<open>run\<close>: \<open>structured[name] = ...\<close> for each outcome.  When the
  payload is a non-empty dictionary, the assignment of \<open>processing_time_seconds\<close> also
  shows in the payload that the outcome holds (it is the same object); the outcomes are
  kept here as the wrapper built them, and nothing below depends on the difference: a
  dictionary that already has the key set to the same value is unchanged by setting it
  again.\<close>

fun merge_outcomes ::
  "(string \<times> AgentOutcome) list \<Rightarrow> (string \<times> pyval) list \<Rightarrow> (string \<times> pyval) list result"
where
  "merge_outcomes [] structured = Return structured"
| "merge_outcomes ((nm, outcome) # rest) structured =
     (if success outcome then
        (let converted = (if is_dataclass (payload outcome) then asdict (payload outcome)
                          else payload outcome);
             p = (if truthy converted then converted else VDict [])
         in case setitem p ''processing_time_seconds''
                   (VFloat (processing_time_seconds outcome)) of
              Raise e \<Rightarrow> Raise e
            | Return p' \<Rightarrow> merge_outcomes rest (AList.update nm p' structured))
      else
        merge_outcomes rest
          (AList.update nm
             (VDict [(''error'', error_value (error outcome)),
                     (''processing_time_seconds'', VFloat (processing_time_seconds outcome))])
             structured))"

definition run ::
  "orchestrator \<Rightarrow> (nat \<Rightarrow> nat) \<Rightarrow> string \<Rightarrow>
     ((string \<times> pyval) list \<times> (string \<times> AgentOutcome) list) result"
where
  "run orch rank document_text =
     (case ainvoke (graph orch) rank document_text of
        Raise e \<Rightarrow> Raise e
      | Return raw_results \<Rightarrow>
          (let agent_outcomes = collect_outcomes raw_results []
           in case merge_outcomes agent_outcomes [] of
                Raise e \<Rightarrow> Raise e
              | Return structured \<Rightarrow> Return (structured, agent_outcomes)))"

section \<open>Document extraction (utils/document_parser.py)\<close>

text \<open>What the file system shows at a path when \<open>extract_text\<close> looks: whether the path
  exists, \<open>path.suffix.lower()\<close>, and what reading it as text or as PDF gives.\<close>

record file_view =
  path_exists :: bool
  suffix_lower :: string
  read_text :: "string result"
  extract_pdf_text :: "string result"

definition extract_text :: "string \<Rightarrow> file_view \<Rightarrow> string result" where
  "extract_text path fv =
     (if \<not> path_exists fv then Raise (OSError (''Document not found at '' @ path))
      else if suffix_lower fv = ''.txt'' then read_text fv
      else if suffix_lower fv = ''.pdf'' then extract_pdf_text fv
      else Raise (UnsupportedDocumentError
                    (''Unsupported document extension '' @ [CHR 0x27] @ suffix_lower fv
                     @ [CHR 0x27] @ ''. Only PDF and TXT are allowed.'')))"

section \<open>The job registry and its handlers (main.py)\<close>

datatype status = Uploaded | Processing | Completed | Partial | Failed

record job =
  job_id :: string
  filename :: string
  filepath :: string
  status :: status
  results :: "(string \<times> pyval) list"
  analysis_started_at :: "nat option"
  analysis_finished_at :: "nat option"
  total_processing_time_seconds :: "real option"
  agents_completed :: nat
  agents_failed :: nat
  warning :: "string option"

type_synonym jobs_store = "string \<rightharpoonup> job"

text \<open>The application state: the registry and the background tasks that \<open>/analyze\<close> has
  queued and that have not run yet.\<close>

record app_state =
  jobs_store :: jobs_store
  background_tasks :: "string list"

datatype response =
    UploadResponse string string status string
  | AnalyzeResponse string status string

text \<open>An uploaded file as the handler sees it: \<open>file.filename\<close>, \<open>file.content_type\<close>,
  \<open>len(contents)\<close> and \<open>Path(file.filename).suffix\<close>.\<close>

record upload_file =
  upload_filename :: string
  content_type :: "string option"
  contents_length :: nat
  filename_suffix :: string

definition MAX_FILE_SIZE_BYTES :: nat where
  "MAX_FILE_SIZE_BYTES = 10 * 1024 * 1024"

definition UPLOAD_DIR :: string where
  "UPLOAD_DIR = ''uploads''"

definition lower_char :: "char \<Rightarrow> char" where
  "lower_char c =
     (case map_of (zip ''ABCDEFGHIJKLMNOPQRSTUVWXYZ'' ''abcdefghijklmnopqrstuvwxyz'') c of
        None \<Rightarrow> c | Some l \<Rightarrow> l)"

definition endswith :: "string \<Rightarrow> string \<Rightarrow> bool" where
  "endswith s suf = (length suf \<le> length s \<and> drop (length s - length suf) s = suf)"

definition validate_file_type :: "upload_file \<Rightarrow> unit result" where
  "validate_file_type file =
     (if content_type file \<notin> {Some ''application/pdf'', Some ''text/plain''}
         \<and> \<not> (endswith (map lower_char (upload_filename file)) ''.pdf''
              \<or> endswith (map lower_char (upload_filename file)) ''.txt'')
      then Raise (HTTPException 400 ''Only PDF and TXT files are supported.'')
      else Return ())"

definition guess_extension :: "string option \<Rightarrow> string" where
  "guess_extension ct = (if ct = Some ''application/pdf'' then ''.pdf'' else ''.txt'')"

text \<open>\<open>POST /upload\<close>; \<open>new_id\<close> is the identifier that \<open>uuid4\<close> draws.\<close>

definition upload_document :: "string \<Rightarrow> upload_file \<Rightarrow> app_state \<Rightarrow> response result \<times> app_state"
where
  "upload_document new_id file s =
     (case validate_file_type file of
        Raise e \<Rightarrow> (Raise e, s)
      | Return u \<Rightarrow>
          if contents_length file > MAX_FILE_SIZE_BYTES
          then (Raise (HTTPException 400 ''File exceeds 10MB limit.''), s)
          else
            (let suffix = (if filename_suffix file \<noteq> [] then filename_suffix file
                           else guess_extension (content_type file));
                 stored_path = UPLOAD_DIR @ ''/'' @ new_id @ suffix
             in (Return (UploadResponse new_id (upload_filename file) Uploaded
                    ''Document uploaded successfully. Use /analyze to start processing.''),
                 s\<lparr>jobs_store := (jobs_store s)(new_id \<mapsto>
                      \<lparr>job_id = new_id, filename = upload_filename file,
                       filepath = stored_path, status = Uploaded, results = [],
                       analysis_started_at = None, analysis_finished_at = None,
                       total_processing_time_seconds = None,
                       agents_completed = 0, agents_failed = 0, warning = None\<rparr>)\<rparr>)))"

text \<open>\<open>POST /analyze\<close>; \<open>now\<close> is the reading of the clock.  A job record is a non-empty
  dictionary, so \<open>not job\<close> holds exactly when the identifier is unknown.\<close>

definition analyze_document :: "nat \<Rightarrow> string \<Rightarrow> app_state \<Rightarrow> response result \<times> app_state"
where
  "analyze_document now request_job_id s =
     (case jobs_store s request_job_id of
        None \<Rightarrow> (Raise (HTTPException 404 ''Unknown job_id.''), s)
      | Some j \<Rightarrow>
          if status j = Processing
          then (Raise (HTTPException 409 ''Analysis already in progress.''), s)
          else if status j \<in> {Completed, Partial}
          then (Raise (HTTPException 409 ''Analysis already completed.''), s)
          else
            (Return (AnalyzeResponse request_job_id Processing
                ''Analysis started. Check /results/{job_id} for updates.''),
             s\<lparr>jobs_store := (jobs_store s)(request_job_id \<mapsto>
                  j\<lparr>status := Processing, analysis_started_at := Some now, results := [],
                    agents_completed := 0, agents_failed := 0, warning := None,
                    total_processing_time_seconds := None\<rparr>),
               background_tasks := background_tasks s @ [request_job_id]\<rparr>))"

definition mark_job_failed :: "nat \<Rightarrow> string \<Rightarrow> string \<Rightarrow> jobs_store \<Rightarrow> jobs_store" where
  "mark_job_failed now jid message st =
     (case st jid of
        None \<Rightarrow> st
      | Some j \<Rightarrow>
          st(jid \<mapsto>
            j\<lparr>status := Failed,
              results :=
                [(''summary'', VDict [(''error'', VStr message), (''processing_time_seconds'', VFloat 0)]),
                 (''entities'', VDict [(''error'', VStr message), (''processing_time_seconds'', VFloat 0)]),
                 (''sentiment'', VDict [(''error'', VStr message), (''processing_time_seconds'', VFloat 0)])],
              warning := Some message,
              agents_completed := 0,
              agents_failed := 3,
              total_processing_time_seconds := Some 0,
              analysis_finished_at := Some now\<rparr>))"

text \<open>\<open>max(iterable, default=d)\<close>.\<close>

fun max_default :: "real list \<Rightarrow> real \<Rightarrow> real" where
  "max_default [] d = d"
| "max_default (x # xs) d = fold max xs x"

text \<open>What a run of the job runner does besides writing the registry.\<close>

datatype event = OrchestratorRun string

text \<open>
  The job runner.  It reads the registry once at the start and writes it once at the end;
  nothing in between depends on the registry, and no handler removes a record, so the
  runner is modelled as one step.  It returns the orchestrator invocations it made, how it
  ended (an exception it does not catch ends the task and leaves the registry as it was),
  and the registry.
\<close>

definition process_job ::
  "orchestrator \<Rightarrow> (nat \<Rightarrow> nat) \<Rightarrow> (string \<Rightarrow> file_view) \<Rightarrow> nat \<Rightarrow> string \<Rightarrow> jobs_store \<Rightarrow>
     event list \<times> unit result \<times> jobs_store"
where
  "process_job orch rank fs now jid st =
     (case st jid of
        None \<Rightarrow> ([], Return (), st)
      | Some j \<Rightarrow>
          (case extract_text (filepath j) (fs (filepath j)) of
             Raise exc \<Rightarrow>
               (case exc of
                  UnsupportedDocumentError m \<Rightarrow>
                    ([], Return (),
                     mark_job_failed now jid (''Document parsing failed: '' @ str_exn exc) st)
                | OSError m \<Rightarrow>
                    ([], Return (),
                     mark_job_failed now jid (''Document parsing failed: '' @ str_exn exc) st)
                | _ \<Rightarrow> ([], Raise exc, st))
           | Return document_text \<Rightarrow>
               (case run orch rank document_text of
                  Raise exc \<Rightarrow>
                    if is_Exception exc
                    then ([OrchestratorRun document_text], Return (),
                          mark_job_failed now jid (''Analysis failed: '' @ str_exn exc) st)
                    else ([OrchestratorRun document_text], Raise exc, st)
                | Return (structured_results, agent_outcomes) \<Rightarrow>
                    (let completed = length (filter (\<lambda>kv. success (snd kv)) agent_outcomes);
                         failed = length agent_outcomes - completed;
                         new_status = (if failed = 0 then Completed else Partial);
                         new_warning =
                           (if new_status = Partial
                            then Some ''Partial results available - one or more agents failed.''
                            else None);
                         total_processing_time =
                           max_default (map (\<lambda>kv. processing_time_seconds (snd kv)) agent_outcomes) 0
                     in ([OrchestratorRun document_text], Return (),
                         st(jid \<mapsto>
                           j\<lparr>status := new_status,
                             results := structured_results,
                             analysis_finished_at := Some now,
                             total_processing_time_seconds := Some (py_round total_processing_time 3),
                             agents_completed := completed,
                             agents_failed := failed,
                             warning := new_warning\<rparr>))))))"

text \<open>The states the application can be in: handlers run one at a time under the lock,
  and a queued background task runs the job runner for its job.\<close>

inductive reachable :: "app_state \<Rightarrow> bool" where
  start: "reachable \<lparr>jobs_store = Map.empty, background_tasks = []\<rparr>"
| upload: "reachable s \<Longrightarrow> upload_document new_id file s = (r, s') \<Longrightarrow> reachable s'"
| analyze: "reachable s \<Longrightarrow> analyze_document now jid s = (r, s') \<Longrightarrow> reachable s'"
| launch_analysis:
    "reachable s \<Longrightarrow> jid \<in> set (background_tasks s) \<Longrightarrow>
     process_job orch rank fs now jid (jobs_store s) = (evs, r, st') \<Longrightarrow>
     reachable (s\<lparr>jobs_store := st', background_tasks := remove1 jid (background_tasks s)\<rparr>)"

section \<open>Notions used to state the properties\<close>

text \<open>The value that one round of the second loop of \<open>run\<close> stores for an outcome
  (the loop body on its own).\<close>

definition slot_of :: "AgentOutcome \<Rightarrow> pyval result" where
  "slot_of outcome =
     (if success outcome then
        setitem
          (let converted = (if is_dataclass (payload outcome) then asdict (payload outcome)
                            else payload outcome)
           in if truthy converted then converted else VDict [])
          ''processing_time_seconds'' (VFloat (processing_time_seconds outcome))
      else Return (VDict [(''error'', error_value (error outcome)),
                          (''processing_time_seconds'', VFloat (processing_time_seconds outcome))]))"


text \<open>The agent interface (section 6 of the specification): on a document text an agent
  returns a typed record (a dataclass instance or a dictionary; an empty value is
  tolerated) or raises an exception.\<close>

fun mergeable :: "pyval \<Rightarrow> bool" where
  "mergeable (VData fs) = True"
| "mergeable (VDict kvs) = True"
| "mergeable v = (\<not> truthy v)"

definition honours_interface :: "agent \<Rightarrow> string \<Rightarrow> bool" where
  "honours_interface a document_text =
     (case snd (a document_text) of Return p \<Rightarrow> mergeable p | Raise e \<Rightarrow> is_Exception e)"

definition agent_fails :: "agent \<Rightarrow> string \<Rightarrow> bool" where
  "agent_fails a document_text =
     (case snd (a document_text) of Return p \<Rightarrow> False | Raise e \<Rightarrow> True)"

definition agent_names :: "string list" where
  "agent_names = [''summary'', ''entities'', ''sentiment'']"

text \<open>The two invariants of a job record that every handler keeps.\<close>

definition job_inv :: "job \<Rightarrow> bool" where
  "job_inv j \<longleftrightarrow>
     (if status j = Uploaded \<or> status j = Processing
      then results j = [] \<and> warning j = None
      else map fst (results j) = agent_names
           \<and> (status j = Completed \<longrightarrow> warning j = None)
           \<and> (status j = Partial \<or> status j = Failed \<longrightarrow> warning j \<noteq> None))"

subsection \<open>A concrete run\<close>

definition start_state :: app_state where
  "start_state = \<lparr>jobs_store = Map.empty, background_tasks = []\<rparr>"

definition report_txt :: upload_file where
  "report_txt = \<lparr>upload_filename = ''report.txt'', content_type = Some ''text/plain'',
                  contents_length = 33, filename_suffix = ''.txt''\<rparr>"

definition notes_docx :: upload_file where
  "notes_docx = \<lparr>upload_filename = ''notes.docx'', content_type = Some ''text/plain'',
                  contents_length = 12, filename_suffix = ''.docx''\<rparr>"

definition disk :: "string \<Rightarrow> file_view" where
  "disk path =
     (if path = ''uploads/job1.txt''
      then \<lparr>path_exists = True, suffix_lower = ''.txt'',
            read_text = Return ''Acme Corp reported record growth.'',
            extract_pdf_text = Raise (OtherException ''not a PDF'')\<rparr>
      else if path = ''uploads/job2.docx''
      then \<lparr>path_exists = True, suffix_lower = ''.docx'',
            read_text = Return ''plain notes'',
            extract_pdf_text = Raise (OtherException ''not a PDF'')\<rparr>
      else \<lparr>path_exists = False, suffix_lower = [],
            read_text = Raise (OSError ''No such file or directory''),
            extract_pdf_text = Raise (OSError ''No such file or directory'')\<rparr>)"

text \<open>Three agents: the summary takes 0.4 s, entity extraction raises after 0.2 s, the
  sentiment agent returns nothing after 0.3 s.\<close>

definition slow_summary :: agent where
  "slow_summary t =
     (4 / 10, Return (VData [(''text'', VStr ''summary''), (''key_points'', VList []),
                              (''confidence'', VFloat (8 / 10))]))"

definition failing_entities :: agent where
  "failing_entities t = (2 / 10, Raise (OtherException ''boom''))"

definition empty_sentiment :: agent where
  "empty_sentiment t = (3 / 10, Return VNone)"

text \<open>An agent whose invocation is cancelled after 0.1 s: \<open>CancelledError\<close> derives from
  \<open>BaseException\<close> only.\<close>

definition cancelled_agent :: agent where
  "cancelled_agent t = (1 / 10, Raise (NonException ''cancelled''))"

text \<open>An agent that raises an \<open>HTTPException\<close> after 0.1 s.\<close>

definition teapot_agent :: agent where
  "teapot_agent t = (1 / 10, Raise (HTTPException 418 ''teapot''))"

definition demo_orch :: orchestrator where
  "demo_orch = \<lparr>summarizer = slow_summary, entity_extractor = failing_entities,
                 sentiment_analyzer = empty_sentiment\<rparr>"

definition demo_outcomes :: "(string \<times> AgentOutcome) list" where
  "demo_outcomes =
     [(''summary'', \<lparr>name = ''summary'', success = True,
          payload = VData [(''text'', VStr ''summary''), (''key_points'', VList []),
                           (''confidence'', VFloat (8 / 10))],
          processing_time_seconds = 4 / 10, error = None\<rparr>),
      (''entities'', \<lparr>name = ''entities'', success = False, payload = VNone,
          processing_time_seconds = 2 / 10, error = Some ''boom''\<rparr>),
      (''sentiment'', \<lparr>name = ''sentiment'', success = True, payload = VNone,
          processing_time_seconds = 3 / 10, error = None\<rparr>)]"

definition demo_structured :: "(string \<times> pyval) list" where
  "demo_structured =
     [(''summary'', VDict [(''text'', VStr ''summary''), (''key_points'', VList []),
                           (''confidence'', VFloat (8 / 10)),
                           (''processing_time_seconds'', VFloat (4 / 10))]),
      (''entities'', VDict [(''error'', VStr ''boom''),
                            (''processing_time_seconds'', VFloat (2 / 10))]),
      (''sentiment'', VDict [(''processing_time_seconds'', VFloat (3 / 10))])]"

text \<open>The second job of the run: \<open>notes.docx\<close> is uploaded as \<open>text/plain\<close>, analysed, and
  its extraction fails on the extension.\<close>

definition docx_message :: string where
  "docx_message = ''Document parsing failed: Unsupported document extension ''
                  @ [CHR 0x27] @ ''.docx'' @ [CHR 0x27] @ ''. Only PDF and TXT are allowed.''"

definition failed_job :: job where
  "failed_job =
     \<lparr>job_id = ''job2'', filename = ''notes.docx'', filepath = ''uploads/job2.docx'',
      status = Failed,
      results =
        [(''summary'', VDict [(''error'', VStr docx_message), (''processing_time_seconds'', VFloat 0)]),
         (''entities'', VDict [(''error'', VStr docx_message), (''processing_time_seconds'', VFloat 0)]),
         (''sentiment'', VDict [(''error'', VStr docx_message), (''processing_time_seconds'', VFloat 0)])],
      analysis_started_at = Some 1, analysis_finished_at = Some 2,
      total_processing_time_seconds = Some 0,
      agents_completed = 0, agents_failed = 3, warning = Some docx_message\<rparr>"

definition failed_state :: app_state where
  "failed_state = \<lparr>jobs_store = [''job2'' \<mapsto> failed_job], background_tasks = []\<rparr>"

definition uploaded_job :: job where
  "uploaded_job =
     \<lparr>job_id = ''job1'', filename = ''report.txt'', filepath = ''uploads/job1.txt'',
      status = Uploaded, results = [],
      analysis_started_at = None, analysis_finished_at = None,
      total_processing_time_seconds = None,
      agents_completed = 0, agents_failed = 0, warning = None\<rparr>"

definition uploaded_state :: app_state where
  "uploaded_state = \<lparr>jobs_store = [''job1'' \<mapsto> uploaded_job], background_tasks = []\<rparr>"

definition partial_job :: job where
  "partial_job =
     uploaded_job\<lparr>status := Partial, results := demo_structured,
       analysis_started_at := Some 1, analysis_finished_at := Some 2,
       total_processing_time_seconds := Some (4 / 10),
       agents_completed := 2, agents_failed := 1,
       warning := Some ''Partial results available - one or more agents failed.''\<rparr>"

definition partial_state :: app_state where
  "partial_state = \<lparr>jobs_store = [''job1'' \<mapsto> partial_job], background_tasks = []\<rparr>"

section \<open>Properties\<close>

subsection \<open>The parallel graph and the two loops of \<open>run\<close>\<close>

lemma completion_order_3_cases:
  "completion_order rank (Suc (Suc (Suc 0)))
     \<in> {[0, 1, 2], [0, 2, 1], [1, 0, 2], [1, 2, 0], [2, 0, 1], [2, 1, 0]}"
  by (simp add: completion_order_def numeral_2_eq_2)

lemma ainvoke3:
  "ainvoke [(k0, f0), (k1, f1), (k2, f2)] rank x = Return res \<longleftrightarrow>
     (\<exists>a b c. f0 x = Return a \<and> f1 x = Return b \<and> f2 x = Return c
              \<and> res = [(k0, a), (k1, b), (k2, c)])"
  using completion_order_3_cases [of rank]
  by (cases "f0 x"; cases "f1 x"; cases "f2 x") (auto simp: ainvoke_def)

lemma py_round_idem: "py_round (py_round x n) n = py_round x n"
  by (simp add: py_round_def round_half_even_def)

lemma py_round_0: "py_round 0 n = 0"
  by (simp add: py_round_def round_half_even_def)

lemma as_raw_Return: "as_raw r = Return raw \<longleftrightarrow> (\<exists>oc. r = Return oc \<and> raw = Outcome oc)"
  by (cases r) auto

lemma merge_outcomes_step:
  "merge_outcomes ((nm, oc) # rest) acc =
     (case slot_of oc of
        Raise e \<Rightarrow> Raise e
      | Return v \<Rightarrow> merge_outcomes rest (AList.update nm v acc))"
  by (simp add: slot_of_def Let_def)

lemma merge_outcomes_3:
  assumes "a \<noteq> b" "a \<noteq> c" "b \<noteq> c"
  shows "merge_outcomes [(a, o1), (b, o2), (c, o3)] [] = Return structured \<longleftrightarrow>
    (\<exists>v1 v2 v3. slot_of o1 = Return v1 \<and> slot_of o2 = Return v2 \<and> slot_of o3 = Return v3
       \<and> structured = [(a, v1), (b, v2), (c, v3)])"
  using assms
  by (cases "slot_of o1"; cases "slot_of o2"; cases "slot_of o3")
     (auto simp: merge_outcomes_step simp del: merge_outcomes.simps(2))

lemma run_Return_iff:
  "run orch rank text = Return (structured, outcomes) \<longleftrightarrow>
     (\<exists>o1 o2 o3 v1 v2 v3.
        timed ''summary'' (summarizer orch) text = Return o1 \<and>
        timed ''entities'' (entity_extractor orch) text = Return o2 \<and>
        timed ''sentiment'' (sentiment_analyzer orch) text = Return o3 \<and>
        slot_of o1 = Return v1 \<and> slot_of o2 = Return v2 \<and> slot_of o3 = Return v3 \<and>
        outcomes = [(''summary'', o1), (''entities'', o2), (''sentiment'', o3)] \<and>
        structured = [(''summary'', v1), (''entities'', v2), (''sentiment'', v3)])"
  (is "?L \<longleftrightarrow> ?R")
proof -
  have m: "\<And>o1 o2 o3 s.
    merge_outcomes [(''summary'', o1), (''entities'', o2), (''sentiment'', o3)] [] = Return s \<longleftrightarrow>
    (\<exists>v1 v2 v3. slot_of o1 = Return v1 \<and> slot_of o2 = Return v2 \<and> slot_of o3 = Return v3
       \<and> s = [(''summary'', v1), (''entities'', v2), (''sentiment'', v3)])"
    by (rule merge_outcomes_3) simp_all
  show ?thesis
  proof
    assume r: ?L
    then obtain raws where a: "ainvoke (graph orch) rank text = Return raws"
      by (auto simp: run_def split: result.splits)
    then obtain o1 o2 o3 where
      t: "timed ''summary'' (summarizer orch) text = Return o1"
         "timed ''entities'' (entity_extractor orch) text = Return o2"
         "timed ''sentiment'' (sentiment_analyzer orch) text = Return o3"
      and raws: "raws = [(''summary'', Outcome o1), (''entities'', Outcome o2),
                         (''sentiment'', Outcome o3)]"
      by (auto simp: graph_def ainvoke3 run_summary_def run_entities_def run_sentiment_def
            as_raw_Return)
    have c: "collect_outcomes raws [] =
               [(''summary'', o1), (''entities'', o2), (''sentiment'', o3)]"
      by (simp add: raws)
    from r a c have "outcomes = [(''summary'', o1), (''entities'', o2), (''sentiment'', o3)]"
      and "merge_outcomes [(''summary'', o1), (''entities'', o2), (''sentiment'', o3)] []
             = Return structured"
      by (auto simp: run_def Let_def split: result.splits simp del: merge_outcomes.simps(2))
    with t m show ?R by blast
  next
    assume ?R
    then obtain o1 o2 o3 v1 v2 v3 where
      t: "timed ''summary'' (summarizer orch) text = Return o1"
         "timed ''entities'' (entity_extractor orch) text = Return o2"
         "timed ''sentiment'' (sentiment_analyzer orch) text = Return o3"
      and s: "slot_of o1 = Return v1" "slot_of o2 = Return v2" "slot_of o3 = Return v3"
      and e: "outcomes = [(''summary'', o1), (''entities'', o2), (''sentiment'', o3)]"
         "structured = [(''summary'', v1), (''entities'', v2), (''sentiment'', v3)]"
      by blast
    have a: "ainvoke (graph orch) rank text =
        Return [(''summary'', Outcome o1), (''entities'', Outcome o2), (''sentiment'', Outcome o3)]"
      using t by (simp add: graph_def ainvoke3 run_summary_def run_entities_def run_sentiment_def)
    have "merge_outcomes [(''summary'', o1), (''entities'', o2), (''sentiment'', o3)] []
            = Return structured"
      using s e m by blast
    then show ?L
      using a e by (simp add: run_def del: merge_outcomes.simps(2))
  qed
qed

lemma timed_Return:
  "timed nm fn text = Return oc \<Longrightarrow>
     name oc = nm \<and> processing_time_seconds oc = py_round (fst (fn text)) 3 \<and>
     (if success oc then snd (fn text) = Return (payload oc) \<and> error oc = None
      else \<exists>e. snd (fn text) = Raise e \<and> is_Exception e \<and> error oc = Some (str_exn e)
               \<and> payload oc = VNone)"
  by (auto simp: timed_def split: prod.splits result.splits if_splits)

lemma timed_honours:
  "honours_interface fn text \<Longrightarrow> \<exists>oc. timed nm fn text = Return oc"
  by (auto simp: timed_def honours_interface_def split: prod.splits result.splits)


lemma slot_of_failure:
  "\<not> success oc \<Longrightarrow>
     slot_of oc = Return (VDict [(''error'', error_value (error oc)),
                                 (''processing_time_seconds'', VFloat (processing_time_seconds oc))])"
  by (simp add: slot_of_def)

lemma slot_of_mergeable:
  "mergeable (payload oc) \<Longrightarrow> \<exists>v. slot_of oc = Return v"
  by (cases "payload oc") (auto simp: slot_of_def Let_def)

lemma demo_timed:
  "timed ''summary'' slow_summary t = Return (snd (demo_outcomes ! 0))"
  "timed ''entities'' failing_entities t = Return (snd (demo_outcomes ! 1))"
  "timed ''sentiment'' empty_sentiment t = Return (snd (demo_outcomes ! 2))"
  by (simp_all add: timed_def slow_summary_def failing_entities_def empty_sentiment_def
        demo_outcomes_def py_round_def round_half_even_def)

lemma demo_run: "run demo_orch rank t = Return (demo_structured, demo_outcomes)"
  by (simp add: run_Return_iff demo_orch_def demo_timed)
     (simp add: demo_outcomes_def demo_structured_def slot_of_def)

subsection \<open>The timed execution wrapper\<close>

text \<open>
  As stated, claim C5 does not hold of every failure an agent can raise: the wrapper
  catches \<open>Exception\<close>, so an exception that derives from \<open>BaseException\<close> only, such as
  the \<open>CancelledError\<close> of a cancelled invocation, passes through it to the caller.
\<close>

theorem timed_propagates_cancellation_counterexample:
  "timed ''summary'' cancelled_agent ''doc'' = Raise (NonException ''cancelled'')"
  by (simp add: timed_def cancelled_agent_def)

text \<open>
  Claim C5, amended.  For every agent invocation: when the agent returns a payload, the
  timed wrapper returns an outcome with \<open>success\<close> true, that payload, no error, and the
  measured duration (as recorded: rounded to three decimals).  When the agent raises an
  exception that derives from \<open>Exception\<close>, the wrapper does not propagate it: it returns
  an outcome with \<open>success\<close> false, the \<open>str\<close> of the exception as error, and the measured
  duration.  An exception that derives from \<open>BaseException\<close> only is propagated to the
  caller.
\<close>

theorem timed_isolates_failures:
  "(\<forall>p. snd (fn document_text) = Return p \<longrightarrow>
      timed nm fn document_text =
        Return \<lparr>name = nm, success = True, payload = p,
                processing_time_seconds = py_round (fst (fn document_text)) 3,
                error = None\<rparr>)
   \<and> (\<forall>exc. snd (fn document_text) = Raise exc \<and> is_Exception exc \<longrightarrow>
      timed nm fn document_text =
        Return \<lparr>name = nm, success = False, payload = VNone,
                processing_time_seconds = py_round (fst (fn document_text)) 3,
                error = Some (str_exn exc)\<rparr>)
   \<and> (\<forall>exc. snd (fn document_text) = Raise exc \<and> \<not> is_Exception exc \<longrightarrow>
      timed nm fn document_text = Raise exc)"
  by (auto simp: timed_def split: prod.splits)

theorem timed_isolates_failures_witness:
  "timed ''entities'' teapot_agent ''doc'' =
     Return \<lparr>name = ''entities'', success = False, payload = VNone,
             processing_time_seconds = 1 / 10, error = Some ''418: teapot''\<rparr>
   \<and> timed ''sentiment'' empty_sentiment ''doc'' =
     Return \<lparr>name = ''sentiment'', success = True, payload = VNone,
             processing_time_seconds = 3 / 10, error = None\<rparr>
   \<and> timed ''sentiment'' cancelled_agent ''doc'' = Raise (NonException ''cancelled'')"
proof -
  have f: "snd (teapot_agent ''doc'') = Raise (HTTPException 418 ''teapot'')
           \<and> is_Exception (HTTPException 418 ''teapot'')"
    by (simp add: teapot_agent_def)
  have r: "snd (empty_sentiment ''doc'') = Return VNone"
    by (simp add: empty_sentiment_def)
  have c: "snd (cancelled_agent ''doc'') = Raise (NonException ''cancelled'')
           \<and> \<not> is_Exception (NonException ''cancelled'')"
    by (simp add: cancelled_agent_def)
  from f timed_isolates_failures [of teapot_agent "''doc''" "''entities''"]
  have 1: "timed ''entities'' teapot_agent ''doc'' =
        Return \<lparr>name = ''entities'', success = False, payload = VNone,
                processing_time_seconds = py_round (fst (teapot_agent ''doc'')) 3,
                error = Some (str_exn (HTTPException 418 ''teapot''))\<rparr>"
    by blast
  from r timed_isolates_failures [of empty_sentiment "''doc''" "''sentiment''"]
  have 2: "timed ''sentiment'' empty_sentiment ''doc'' =
        Return \<lparr>name = ''sentiment'', success = True, payload = VNone,
                processing_time_seconds = py_round (fst (empty_sentiment ''doc'')) 3,
                error = None\<rparr>"
    by blast
  from c timed_isolates_failures [of cancelled_agent "''doc''" "''sentiment''"]
  have 3: "timed ''sentiment'' cancelled_agent ''doc'' = Raise (NonException ''cancelled'')"
    by blast
  have d: "py_round (fst (teapot_agent ''doc'')) 3 = 1 / 10"
          "py_round (fst (empty_sentiment ''doc'')) 3 = 3 / 10"
    by (simp_all add: teapot_agent_def empty_sentiment_def py_round_def round_half_even_def)
  have e: "str_exn (HTTPException 418 ''teapot'') = ''418: teapot''"
    by (simp add: str_nat.simps digit_char_def)
  from 1 2 3 d e show ?thesis by simp
qed

subsection \<open>Order of the merged result\<close>

text \<open>
  Claim C8.  Whenever the orchestrator returns, the keys of the merged result and the
  keys of the outcomes-by-name mapping are, in iteration order, \<open>summary\<close>, \<open>entities\<close>,
  \<open>sentiment\<close>, and the whole result is the same under every schedule of completion
  of the three branches.
\<close>

theorem merged_order_is_configuration_order:
  assumes "run orch rank document_text = Return (structured, outcomes)"
  shows "map fst structured = [''summary'', ''entities'', ''sentiment'']
       \<and> map fst outcomes = [''summary'', ''entities'', ''sentiment'']
       \<and> (\<forall>rank'. run orch rank' document_text = Return (structured, outcomes))"
proof -
  from assms obtain o1 o2 o3 v1 v2 v3 where
      t: "timed ''summary'' (summarizer orch) document_text = Return o1"
         "timed ''entities'' (entity_extractor orch) document_text = Return o2"
         "timed ''sentiment'' (sentiment_analyzer orch) document_text = Return o3"
      and s: "slot_of o1 = Return v1" "slot_of o2 = Return v2" "slot_of o3 = Return v3"
      and e: "outcomes = [(''summary'', o1), (''entities'', o2), (''sentiment'', o3)]"
         "structured = [(''summary'', v1), (''entities'', v2), (''sentiment'', v3)]"
    unfolding run_Return_iff by blast
  have "run orch rank' document_text = Return (structured, outcomes)" for rank'
    unfolding run_Return_iff using t s e by blast
  with e show ?thesis by simp
qed

theorem merged_order_is_configuration_order_witness:
  "map fst demo_structured = [''summary'', ''entities'', ''sentiment'']
   \<and> map fst demo_outcomes = [''summary'', ''entities'', ''sentiment'']
   \<and> run demo_orch (\<lambda>i. 2 - i) ''doc'' = Return (demo_structured, demo_outcomes)
   \<and> completion_order (\<lambda>i. 2 - i) 3 = [2, 1, 0]"
proof -
  have c: "completion_order (\<lambda>i. 2 - i) 3 = [2, 1, 0]"
    by (simp add: completion_order_def numeral_3_eq_3)
  have "run demo_orch (\<lambda>i. i) ''doc'' = Return (demo_structured, demo_outcomes)"
    by (rule demo_run)
  from merged_order_is_configuration_order [OF this] c show ?thesis by blast
qed


subsection \<open>Shape of the merged result\<close>





subsection \<open>The job runner\<close>

lemma run_total:
  assumes "honours_interface (summarizer orch) document_text"
    and "honours_interface (entity_extractor orch) document_text"
    and "honours_interface (sentiment_analyzer orch) document_text"
  shows "\<exists>structured outcomes. run orch rank document_text = Return (structured, outcomes)"
proof -
  have slot: "\<exists>oc v. timed nm fn document_text = Return oc \<and> slot_of oc = Return v"
    if "honours_interface fn document_text" for nm fn
  proof -
    from timed_honours [OF that] obtain oc where t: "timed nm fn document_text = Return oc"
      by blast
    have "\<exists>v. slot_of oc = Return v"
    proof (cases "success oc")
      case True
      with timed_Return [OF t] that have "mergeable (payload oc)"
        by (auto simp: honours_interface_def)
      then show ?thesis by (rule slot_of_mergeable)
    next
      case False
      then show ?thesis by (simp add: slot_of_failure)
    qed
    with t show ?thesis by blast
  qed
  from slot [OF assms(1)] slot [OF assms(2)] slot [OF assms(3)] show ?thesis
    unfolding run_Return_iff by blast
qed

lemma process_job_after_run:
  assumes "st jid = Some j"
    and "extract_text (filepath j) (fs (filepath j)) = Return document_text"
    and "run orch rank document_text = Return (structured, outcomes)"
  shows "process_job orch rank fs now jid st =
    ([OrchestratorRun document_text], Return (),
     st(jid \<mapsto> j\<lparr>status :=
            (if length outcomes - length (filter (\<lambda>kv. success (snd kv)) outcomes) = 0
             then Completed else Partial),
          results := structured,
          analysis_finished_at := Some now,
          total_processing_time_seconds :=
            Some (py_round (max_default (map (\<lambda>kv. processing_time_seconds (snd kv)) outcomes) 0) 3),
          agents_completed := length (filter (\<lambda>kv. success (snd kv)) outcomes),
          agents_failed := length outcomes - length (filter (\<lambda>kv. success (snd kv)) outcomes),
          warning :=
            (if length outcomes - length (filter (\<lambda>kv. success (snd kv)) outcomes) = 0
             then None
             else Some ''Partial results available - one or more agents failed.'')\<rparr>))"
  using assms by (simp add: process_job_def Let_def)

lemma process_job_extraction_failure:
  assumes "st jid = Some j"
    and "extract_text (filepath j) (fs (filepath j)) = Raise exc"
    and "exc = UnsupportedDocumentError m \<or> exc = OSError m"
  shows "process_job orch rank fs now jid st =
    ([], Return (), mark_job_failed now jid (''Document parsing failed: '' @ m) st)"
  using assms by (auto simp: process_job_def)

text \<open>
  Claim C7.  When the extraction of a job's document text fails with an unsupported
  format or an I/O error, the job runner ends normally without invoking the orchestrator
  and leaves the job with status \<open>failed\<close>, the same error message in each of the three
  result slots, \<open>processing_time_seconds\<close> 0.0 in each slot, total processing time 0.0,
  no agent completed and three agents failed.
\<close>

theorem extraction_failure_marks_job_failed:
  assumes "st jid = Some j"
    and "extract_text (filepath j) (fs (filepath j)) = Raise exc"
    and "exc = UnsupportedDocumentError m \<or> exc = OSError m"
  shows "\<exists>j'. process_job orch rank fs now jid st = ([], Return (), st(jid \<mapsto> j'))
    \<and> status j' = Failed
    \<and> results j' =
        [(''summary'', VDict [(''error'', VStr (''Document parsing failed: '' @ m)),
                              (''processing_time_seconds'', VFloat 0)]),
         (''entities'', VDict [(''error'', VStr (''Document parsing failed: '' @ m)),
                               (''processing_time_seconds'', VFloat 0)]),
         (''sentiment'', VDict [(''error'', VStr (''Document parsing failed: '' @ m)),
                                (''processing_time_seconds'', VFloat 0)])]
    \<and> total_processing_time_seconds j' = Some 0
    \<and> agents_completed j' = 0 \<and> agents_failed j' = 3"
proof -
  have "process_job orch rank fs now jid st =
          ([], Return (), mark_job_failed now jid (''Document parsing failed: '' @ m) st)"
    using assms by (rule process_job_extraction_failure)
  with assms(1) show ?thesis
    by (intro exI [where x = "the (mark_job_failed now jid (''Document parsing failed: '' @ m) st jid)"])
       (simp add: mark_job_failed_def)
qed


theorem extraction_failure_marks_job_failed_witness:
  "fst (process_job demo_orch (\<lambda>i. i) disk 2 ''job2''
          [''job2'' \<mapsto> failed_job\<lparr>status := Processing, results := []\<rparr>]) = []
   \<and> map_option status
        (snd (snd (process_job demo_orch (\<lambda>i. i) disk 2 ''job2''
           [''job2'' \<mapsto> failed_job\<lparr>status := Processing, results := []\<rparr>])) ''job2'')
       = Some Failed
   \<and> map_option results
        (snd (snd (process_job demo_orch (\<lambda>i. i) disk 2 ''job2''
           [''job2'' \<mapsto> failed_job\<lparr>status := Processing, results := []\<rparr>])) ''job2'')
       = Some (results failed_job)"
proof -
  let ?j = "failed_job\<lparr>status := Processing, results := []\<rparr>"
  let ?m = "''Unsupported document extension '' @ [CHR 0x27] @ ''.docx'' @ [CHR 0x27]
            @ ''. Only PDF and TXT are allowed.''"
  have a: "[''job2'' \<mapsto> ?j] ''job2'' = Some ?j" by simp
  have b: "extract_text (filepath ?j) (disk (filepath ?j)) = Raise (UnsupportedDocumentError ?m)"
    by (simp add: extract_text_def disk_def failed_job_def)
  have c: "UnsupportedDocumentError ?m = UnsupportedDocumentError ?m
           \<or> UnsupportedDocumentError ?m = OSError ?m"
    by simp
  from a b c
    extraction_failure_marks_job_failed
      [of "[''job2'' \<mapsto> ?j]" "''job2''" ?j disk "UnsupportedDocumentError ?m" ?m
          demo_orch "\<lambda>i. i" 2]
  show ?thesis
    by (auto simp: failed_job_def docx_message_def)
qed

lemma py_round_max:
  "py_round a n = a \<Longrightarrow> py_round b n = b \<Longrightarrow> py_round (max a b) n = max a b"
  by (simp add: max_def)

text \<open>
  Claim C3.  When the orchestration of a job completes, the total processing time written
  to the record is the maximum of the recorded durations of the outcomes (0 if there were
  none).  It is not their sum: when no recorded duration is negative and at least two are
  positive, the stored total differs from the sum.
\<close>

theorem total_time_is_max_of_durations:
  assumes "st jid = Some j"
    and "extract_text (filepath j) (fs (filepath j)) = Return document_text"
    and "run orch rank document_text = Return (structured, outcomes)"
  shows "\<exists>j'. process_job orch rank fs now jid st
                = ([OrchestratorRun document_text], Return (), st(jid \<mapsto> j'))
    \<and> total_processing_time_seconds j' =
        Some (if outcomes = [] then 0
              else Max (set (map (\<lambda>kv. processing_time_seconds (snd kv)) outcomes)))
    \<and> ((\<forall>kv \<in> set outcomes. 0 \<le> processing_time_seconds (snd kv))
        \<and> 2 \<le> length (filter (\<lambda>kv. 0 < processing_time_seconds (snd kv)) outcomes)
        \<longrightarrow> total_processing_time_seconds j' \<noteq>
              Some (sum_list (map (\<lambda>kv. processing_time_seconds (snd kv)) outcomes)))"
proof -
  from assms(3) obtain o1 o2 o3 where
      t: "timed ''summary'' (summarizer orch) document_text = Return o1"
         "timed ''entities'' (entity_extractor orch) document_text = Return o2"
         "timed ''sentiment'' (sentiment_analyzer orch) document_text = Return o3"
      and e: "outcomes = [(''summary'', o1), (''entities'', o2), (''sentiment'', o3)]"
    unfolding run_Return_iff by blast
  let ?a = "processing_time_seconds o1"
  let ?b = "processing_time_seconds o2"
  let ?c = "processing_time_seconds o3"
  have fp: "py_round ?a 3 = ?a" "py_round ?b 3 = ?b" "py_round ?c 3 = ?c"
    using timed_Return [OF t(1)] timed_Return [OF t(2)] timed_Return [OF t(3)]
    by (simp_all add: py_round_idem)
  have m: "max_default (map (\<lambda>kv. processing_time_seconds (snd kv)) outcomes) 0
             = max ?c (max ?b ?a)"
    by (simp add: e)
  have r: "py_round (max ?c (max ?b ?a)) 3 = max ?c (max ?b ?a)"
    by (intro py_round_max fp)
  have mx: "Max (set (map (\<lambda>kv. processing_time_seconds (snd kv)) outcomes))
             = max ?c (max ?b ?a)"
    by (simp add: e max.commute max.left_commute)
  have sm: "max ?c (max ?b ?a)
              \<noteq> sum_list (map (\<lambda>kv. processing_time_seconds (snd kv)) outcomes)"
    if "\<forall>kv \<in> set outcomes. 0 \<le> processing_time_seconds (snd kv)"
      and "2 \<le> length (filter (\<lambda>kv. 0 < processing_time_seconds (snd kv)) outcomes)"
    using that by (auto simp: e max_def split: if_splits)
  let ?j' = "the (snd (snd (process_job orch rank fs now jid st)) jid)"
  from process_job_after_run
         [of st jid j fs document_text orch rank structured outcomes now, OF assms]
       m r mx sm e show ?thesis
    by (intro exI [where x = ?j']) simp
qed

lemma demo_extract:
  "extract_text (filepath (uploaded_job\<lparr>status := Processing, analysis_started_at := Some 1\<rparr>))
     (disk (filepath (uploaded_job\<lparr>status := Processing, analysis_started_at := Some 1\<rparr>)))
   = Return ''Acme Corp reported record growth.''"
  by (simp add: extract_text_def disk_def uploaded_job_def)

theorem total_time_is_max_of_durations_witness:
  "map_option total_processing_time_seconds
     (snd (snd (process_job demo_orch (\<lambda>i. i) disk 2 ''job1''
        [''job1'' \<mapsto> uploaded_job\<lparr>status := Processing, analysis_started_at := Some 1\<rparr>]))
      ''job1'')
   = Some (Some (4 / 10))
   \<and> 4 / 10 \<noteq> sum_list (map (\<lambda>kv. processing_time_seconds (snd kv)) demo_outcomes)"
proof -
  let ?j = "uploaded_job\<lparr>status := Processing, analysis_started_at := Some 1\<rparr>"
  have a: "[''job1'' \<mapsto> ?j] ''job1'' = Some ?j" by simp
  have r: "run demo_orch (\<lambda>i. i) ''Acme Corp reported record growth.''
             = Return (demo_structured, demo_outcomes)"
    by (rule demo_run)
  have h: "(\<forall>kv \<in> set demo_outcomes. 0 \<le> processing_time_seconds (snd kv))
        \<and> 2 \<le> length (filter (\<lambda>kv. 0 < processing_time_seconds (snd kv)) demo_outcomes)"
    by (simp add: demo_outcomes_def)
  have mx: "(if demo_outcomes = [] then 0
             else Max (set (map (\<lambda>kv. processing_time_seconds (snd kv)) demo_outcomes)))
            = (4 / 10 :: real)"
    by (simp add: demo_outcomes_def)
  from total_time_is_max_of_durations
         [of "[''job1'' \<mapsto> ?j]" "''job1''" ?j disk "''Acme Corp reported record growth.''"
             demo_orch "\<lambda>i. i" demo_structured demo_outcomes 2, OF a demo_extract r]
       h mx
  show ?thesis by auto
qed

lemma timed_success_iff:
  "timed nm fn document_text = Return oc \<Longrightarrow> success oc \<longleftrightarrow> \<not> agent_fails fn document_text"
  by (auto simp: timed_def agent_fails_def split: prod.splits result.splits if_splits)

text \<open>
  Claim C4.  For every document text and every choice of the agents that fail, when the
  agents keep to their interface the job runner finishes, \<open>agents_completed\<close> and
  \<open>agents_failed\<close> add up to 3, \<open>agents_failed\<close> is the number of agents that raised, and
  the stored status is \<open>completed\<close> exactly when \<open>agents_failed\<close> is 0, otherwise
  \<open>partial\<close> (with a warning).
\<close>

theorem counts_and_status_after_run:
  assumes "st jid = Some j"
    and "extract_text (filepath j) (fs (filepath j)) = Return document_text"
    and "honours_interface (summarizer orch) document_text"
    and "honours_interface (entity_extractor orch) document_text"
    and "honours_interface (sentiment_analyzer orch) document_text"
  shows "\<exists>j'. process_job orch rank fs now jid st
                = ([OrchestratorRun document_text], Return (), st(jid \<mapsto> j'))
    \<and> agents_completed j' + agents_failed j' = 3
    \<and> agents_failed j' =
        length (filter (\<lambda>a. agent_fails a document_text)
                  [summarizer orch, entity_extractor orch, sentiment_analyzer orch])
    \<and> (status j' = Completed \<longleftrightarrow> agents_failed j' = 0)
    \<and> (agents_failed j' \<noteq> 0 \<longrightarrow> status j' = Partial \<and> warning j' \<noteq> None)"
proof -
  from run_total [OF assms(3-5), of rank] obtain structured outcomes where
    r: "run orch rank document_text = Return (structured, outcomes)"
    by blast
  then obtain o1 o2 o3 where
      t: "timed ''summary'' (summarizer orch) document_text = Return o1"
         "timed ''entities'' (entity_extractor orch) document_text = Return o2"
         "timed ''sentiment'' (sentiment_analyzer orch) document_text = Return o3"
      and e: "outcomes = [(''summary'', o1), (''entities'', o2), (''sentiment'', o3)]"
    unfolding run_Return_iff by blast
  note s = timed_success_iff [OF t(1)] timed_success_iff [OF t(2)] timed_success_iff [OF t(3)]
  let ?j' = "the (snd (snd (process_job orch rank fs now jid st)) jid)"
  from process_job_after_run
         [of st jid j fs document_text orch rank structured outcomes now, OF assms(1,2) r]
       e s
  show ?thesis
    by (intro exI [where x = ?j']) auto
qed

theorem counts_and_status_after_run_witness:
  "map_option (\<lambda>j. (agents_completed j, agents_failed j, status j))
     (snd (snd (process_job demo_orch (\<lambda>i. i) disk 2 ''job1''
        [''job1'' \<mapsto> uploaded_job\<lparr>status := Processing, analysis_started_at := Some 1\<rparr>]))
      ''job1'')
   = Some (2, 1, Partial)"
proof -
  let ?j = "uploaded_job\<lparr>status := Processing, analysis_started_at := Some 1\<rparr>"
  let ?t = "''Acme Corp reported record growth.''"
  have a: "[''job1'' \<mapsto> ?j] ''job1'' = Some ?j" by simp
  have h: "honours_interface (summarizer demo_orch) ?t"
    "honours_interface (entity_extractor demo_orch) ?t"
    "honours_interface (sentiment_analyzer demo_orch) ?t"
    by (simp_all add: honours_interface_def demo_orch_def slow_summary_def
          failing_entities_def empty_sentiment_def)
  have f: "length (filter (\<lambda>a. agent_fails a ?t)
             [summarizer demo_orch, entity_extractor demo_orch, sentiment_analyzer demo_orch]) = 1"
    by (simp add: agent_fails_def demo_orch_def slow_summary_def
          failing_entities_def empty_sentiment_def)
  from counts_and_status_after_run
         [of "[''job1'' \<mapsto> ?j]" "''job1''" ?j disk ?t demo_orch "\<lambda>i. i" 2, OF a demo_extract h]
       f
  show ?thesis by auto
qed

subsection \<open>Invariants of the job registry\<close>

lemma upload_document_store:
  "upload_document new_id file s = (r, s') \<Longrightarrow>
     s' = s \<or> (\<exists>fname path.
        s' = s\<lparr>jobs_store := (jobs_store s)(new_id \<mapsto>
               \<lparr>job_id = new_id, filename = fname, filepath = path, status = Uploaded,
                results = [], analysis_started_at = None, analysis_finished_at = None,
                total_processing_time_seconds = None,
                agents_completed = 0, agents_failed = 0, warning = None\<rparr>)\<rparr>)"
  by (auto simp: upload_document_def Let_def split: result.splits if_splits)

lemma analyze_document_store:
  "analyze_document now jid s = (r, s') \<Longrightarrow>
     s' = s \<or> (\<exists>j. jobs_store s jid = Some j \<and>
        s' = s\<lparr>jobs_store := (jobs_store s)(jid \<mapsto>
                  j\<lparr>status := Processing, analysis_started_at := Some now, results := [],
                    agents_completed := 0, agents_failed := 0, warning := None,
                    total_processing_time_seconds := None\<rparr>),
                background_tasks := background_tasks s @ [jid]\<rparr>)"
  by (auto simp: analyze_document_def split: option.splits if_splits)

lemma mark_job_failed_inv:
  assumes "\<And>k j. st k = Some j \<Longrightarrow> job_inv j"
    and "mark_job_failed now jid msg st k = Some j'"
  shows "job_inv j'"
proof (cases "st jid")
  case None
  with assms show ?thesis by (simp add: mark_job_failed_def)
next
  case (Some j)
  show ?thesis
  proof (cases "k = jid")
    case True
    with Some assms(2) show ?thesis
      by (auto simp: mark_job_failed_def job_inv_def agent_names_def)
  next
    case False
    with Some assms show ?thesis by (simp add: mark_job_failed_def)
  qed
qed

lemma process_job_inv:
  assumes "\<And>k j. st k = Some j \<Longrightarrow> job_inv j"
    and "process_job orch rank fs now jid st = (evs, r, st')"
    and "st' k = Some j'"
  shows "job_inv j'"
proof (cases "st jid")
  case None
  with assms show ?thesis by (simp add: process_job_def)
next
  case (Some j)
  show ?thesis
  proof (cases "extract_text (filepath j) (fs (filepath j))")
    case (Raise exc)
    with Some assms(2) have "st' = st \<or> (\<exists>msg. st' = mark_job_failed now jid msg st)"
      by (cases exc) (auto simp: process_job_def)
    with assms(1,3) show ?thesis
      using mark_job_failed_inv [of st] by blast
  next
    case (Return document_text)
    show ?thesis
    proof (cases "run orch rank document_text")
      case (Raise exc)
      with Some Return assms(2) have "st' = st \<or> (\<exists>msg. st' = mark_job_failed now jid msg st)"
        by (auto simp: process_job_def split: if_splits)
      with assms(1,3) show ?thesis
        using mark_job_failed_inv [of st] by blast
    next
      case r: (Return res)
      obtain structured outcomes where res: "res = (structured, outcomes)"
        by (cases res)
      from r res have rr: "run orch rank document_text = Return (structured, outcomes)"
        by simp
      from rr [unfolded run_Return_iff]
      have keys: "map fst structured = agent_names" "length outcomes = 3"
        by (auto simp: agent_names_def)
      from process_job_after_run
             [of st jid j fs document_text orch rank structured outcomes now]
           Some Return r res assms(2)
      have "st' = st(jid \<mapsto> j\<lparr>status :=
            (if length outcomes - length (filter (\<lambda>kv. success (snd kv)) outcomes) = 0
             then Completed else Partial),
          results := structured,
          analysis_finished_at := Some now,
          total_processing_time_seconds :=
            Some (py_round (max_default (map (\<lambda>kv. processing_time_seconds (snd kv)) outcomes) 0) 3),
          agents_completed := length (filter (\<lambda>kv. success (snd kv)) outcomes),
          agents_failed := length outcomes - length (filter (\<lambda>kv. success (snd kv)) outcomes),
          warning :=
            (if length outcomes - length (filter (\<lambda>kv. success (snd kv)) outcomes) = 0
             then None
             else Some ''Partial results available - one or more agents failed.'')\<rparr>)"
        by simp
      with assms(1) [of k j'] assms(3) keys show ?thesis
        by (cases "k = jid") (auto simp: job_inv_def split: if_splits)
    qed
  qed
qed

lemma reachable_job_inv:
  "reachable s \<Longrightarrow> jobs_store s k = Some j \<Longrightarrow> job_inv j"
proof (induction arbitrary: k j rule: reachable.induct)
  case start
  then show ?case by simp
next
  case (upload s new_id f r s')
  from upload_document_store [OF upload.hyps(2)] upload.prems upload.IH [of k j] show ?case
    by (cases "k = new_id") (auto simp: job_inv_def split: if_splits)
next
  case (analyze s now jid r s')
  from analyze_document_store [OF analyze.hyps(2)] analyze.prems analyze.IH [of k j] show ?case
    by (cases "k = jid") (auto simp: job_inv_def split: if_splits)
next
  case (launch_analysis s jid orch rank fs now evs r st')
  from launch_analysis.prems have "st' k = Some j" by simp
  with process_job_inv [OF _ launch_analysis.hyps(3)] launch_analysis.IH show ?case
    by blast
qed

subsection \<open>The concrete run is reachable\<close>

lemma demo_process1:
  "process_job demo_orch (\<lambda>i. i) disk 2 ''job1''
     [''job1'' \<mapsto> uploaded_job\<lparr>status := Processing, analysis_started_at := Some 1\<rparr>]
   = ([OrchestratorRun ''Acme Corp reported record growth.''], Return (),
      [''job1'' \<mapsto> partial_job])"
proof -
  let ?j = "uploaded_job\<lparr>status := Processing, analysis_started_at := Some 1\<rparr>"
  have a: "[''job1'' \<mapsto> ?j] ''job1'' = Some ?j" by simp
  have r: "run demo_orch (\<lambda>i. i) ''Acme Corp reported record growth.''
             = Return (demo_structured, demo_outcomes)"
    by (rule demo_run)
  have p: "py_round (max_default (map (\<lambda>kv. processing_time_seconds (snd kv)) demo_outcomes) 0) 3
             = 4 / 10"
    by (simp add: demo_outcomes_def py_round_def round_half_even_def)
  have c: "length (filter (\<lambda>kv. success (snd kv)) demo_outcomes) = 2" "length demo_outcomes = 3"
    by (simp_all add: demo_outcomes_def)
  from process_job_after_run
         [of "[''job1'' \<mapsto> ?j]" "''job1''" ?j disk "''Acme Corp reported record growth.''"
             demo_orch "\<lambda>i. i" demo_structured demo_outcomes 2, OF a demo_extract r]
  show ?thesis
    by (simp add: p c partial_job_def uploaded_job_def)
qed

lemma reachable_uploaded_state: "reachable uploaded_state"
proof -
  have r0: "reachable start_state"
    by (simp add: start_state_def reachable.start)
  have u: "snd (upload_document ''job1'' report_txt start_state) = uploaded_state"
    by (simp add: upload_document_def validate_file_type_def report_txt_def start_state_def
          MAX_FILE_SIZE_BYTES_def UPLOAD_DIR_def uploaded_job_def uploaded_state_def)
  from reachable.upload [of start_state "''job1''" report_txt, OF r0 surjective_pairing] u
  show ?thesis by simp
qed

lemma reachable_partial_state: "reachable partial_state"
proof -
  have r1: "reachable \<lparr>jobs_store = [''job1'' \<mapsto> uploaded_job], background_tasks = []\<rparr>"
    using reachable_uploaded_state by (simp add: uploaded_state_def)
  have a: "snd (analyze_document 1 ''job1''
                  \<lparr>jobs_store = [''job1'' \<mapsto> uploaded_job], background_tasks = []\<rparr>)
           = \<lparr>jobs_store = [''job1'' \<mapsto> uploaded_job\<lparr>status := Processing,
                                                    analysis_started_at := Some 1\<rparr>],
              background_tasks = [''job1'']\<rparr>"
    by (simp add: analyze_document_def uploaded_job_def)
  from reachable.analyze [of _ 1 "''job1''", OF r1 surjective_pairing] a
  have r2: "reachable \<lparr>jobs_store = [''job1'' \<mapsto> uploaded_job\<lparr>status := Processing,
                                                    analysis_started_at := Some 1\<rparr>],
                        background_tasks = [''job1'']\<rparr>"
    by simp
  let ?s2 = "\<lparr>jobs_store = [''job1'' \<mapsto> uploaded_job\<lparr>status := Processing,
                                                    analysis_started_at := Some 1\<rparr>],
              background_tasks = [''job1'']\<rparr>"
  have m: "''job1'' \<in> set (background_tasks ?s2)" by simp
  have p: "process_job demo_orch (\<lambda>i. i) disk 2 ''job1'' (jobs_store ?s2)
           = ([OrchestratorRun ''Acme Corp reported record growth.''], Return (),
              [''job1'' \<mapsto> partial_job])"
    using demo_process1 by simp
  from reachable.launch_analysis [OF r2 m p] show ?thesis
    by (simp add: partial_state_def)
qed

lemma demo_process2:
  "process_job orch rank disk 2 ''job2''
     [''job2'' \<mapsto> failed_job\<lparr>status := Processing, results := [], analysis_finished_at := None,
                              total_processing_time_seconds := None, agents_failed := 0,
                              warning := None\<rparr>]
   = ([], Return (), [''job2'' \<mapsto> failed_job])"
  by (simp add: process_job_def extract_text_def disk_def failed_job_def mark_job_failed_def
        docx_message_def)

lemma reachable_failed_state: "reachable failed_state"
proof -
  let ?u = "failed_job\<lparr>status := Uploaded, results := [], analysis_started_at := None,
              analysis_finished_at := None, total_processing_time_seconds := None,
              agents_failed := 0, warning := None\<rparr>"
  let ?p = "failed_job\<lparr>status := Processing, results := [], analysis_finished_at := None,
              total_processing_time_seconds := None, agents_failed := 0, warning := None\<rparr>"
  have r0: "reachable start_state"
    by (simp add: start_state_def reachable.start)
  have u: "snd (upload_document ''job2'' notes_docx start_state)
             = \<lparr>jobs_store = [''job2'' \<mapsto> ?u], background_tasks = []\<rparr>"
    by (simp add: upload_document_def validate_file_type_def notes_docx_def start_state_def
          MAX_FILE_SIZE_BYTES_def UPLOAD_DIR_def failed_job_def)
  from reachable.upload [of start_state "''job2''" notes_docx, OF r0 surjective_pairing] u
  have r1: "reachable \<lparr>jobs_store = [''job2'' \<mapsto> ?u], background_tasks = []\<rparr>"
    by simp
  have a: "snd (analyze_document 1 ''job2'' \<lparr>jobs_store = [''job2'' \<mapsto> ?u], background_tasks = []\<rparr>)
           = \<lparr>jobs_store = [''job2'' \<mapsto> ?p], background_tasks = [''job2'']\<rparr>"
    by (simp add: analyze_document_def failed_job_def)
  from reachable.analyze [of _ 1 "''job2''", OF r1 surjective_pairing] a
  have r2: "reachable \<lparr>jobs_store = [''job2'' \<mapsto> ?p], background_tasks = [''job2'']\<rparr>"
    by simp
  let ?s2 = "\<lparr>jobs_store = [''job2'' \<mapsto> ?p], background_tasks = [''job2'']\<rparr>"
  have m: "''job2'' \<in> set (background_tasks ?s2)" by simp
  have p: "process_job demo_orch (\<lambda>i. i) disk 2 ''job2'' (jobs_store ?s2)
           = ([], Return (), [''job2'' \<mapsto> failed_job])"
    using demo_process2 [of demo_orch "\<lambda>i. i"] by simp
  from reachable.launch_analysis [OF r2 m p] show ?thesis
    by (simp add: failed_state_def)
qed

subsection \<open>Triggering analysis\<close>

text \<open>
  As stated, claim C1 does not hold of a failed job: in the reachable state
  \<open>failed_state\<close> the job \<open>job2\<close> is failed, and \<open>/analyze\<close> accepts it, resets its
  result fields, moves it back to \<open>processing\<close> and queues a new run.
\<close>

theorem analyze_on_failed_job_counterexample:
  "reachable failed_state
   \<and> jobs_store failed_state ''job2'' = Some failed_job
   \<and> status failed_job = Failed
   \<and> analyze_document 3 ''job2'' failed_state =
       (Return (AnalyzeResponse ''job2'' Processing
                  ''Analysis started. Check /results/{job_id} for updates.''),
        \<lparr>jobs_store = [''job2'' \<mapsto>
            failed_job\<lparr>status := Processing, analysis_started_at := Some 3, results := [],
              agents_completed := 0, agents_failed := 0, warning := None,
              total_processing_time_seconds := None\<rparr>],
         background_tasks = [''job2'']\<rparr>)"
  using reachable_failed_state
  by (simp add: failed_state_def analyze_document_def failed_job_def)

text \<open>
  Claim C1, amended.  For every job whose status is \<open>processing\<close>, \<open>completed\<close> or
  \<open>partial\<close>, \<open>/analyze\<close> is rejected with a 409 conflict and the application state is
  left unchanged.  A job whose status is \<open>failed\<close> is accepted: the handler answers
  \<open>processing\<close>, and the record is reset and moved back to \<open>processing\<close>.
\<close>

theorem analyze_rejects_unless_uploaded_or_failed:
  assumes "jobs_store s jid = Some j"
  shows "(status j = Processing \<longrightarrow>
            analyze_document now jid s
              = (Raise (HTTPException 409 ''Analysis already in progress.''), s))
       \<and> (status j = Completed \<or> status j = Partial \<longrightarrow>
            analyze_document now jid s
              = (Raise (HTTPException 409 ''Analysis already completed.''), s))
       \<and> (status j = Failed \<longrightarrow>
            fst (analyze_document now jid s)
              = Return (AnalyzeResponse jid Processing
                          ''Analysis started. Check /results/{job_id} for updates.'')
            \<and> jobs_store (snd (analyze_document now jid s)) jid
              = Some (j\<lparr>status := Processing, analysis_started_at := Some now, results := [],
                        agents_completed := 0, agents_failed := 0, warning := None,
                        total_processing_time_seconds := None\<rparr>))"
  using assms by (auto simp: analyze_document_def)

theorem analyze_rejects_unless_uploaded_or_failed_witness:
  "analyze_document 3 ''job1'' partial_state
     = (Raise (HTTPException 409 ''Analysis already completed.''), partial_state)
   \<and> map_option status (jobs_store (snd (analyze_document 3 ''job2'' failed_state)) ''job2'')
     = Some Processing"
proof -
  have a: "jobs_store partial_state ''job1'' = Some partial_job" "status partial_job = Partial"
    by (simp_all add: partial_state_def partial_job_def)
  have b: "jobs_store failed_state ''job2'' = Some failed_job" "status failed_job = Failed"
    by (simp_all add: failed_state_def failed_job_def)
  from analyze_rejects_unless_uploaded_or_failed [OF a(1), of 3] a(2)
  have 1: "analyze_document 3 ''job1'' partial_state
     = (Raise (HTTPException 409 ''Analysis already completed.''), partial_state)"
    by blast
  from analyze_rejects_unless_uploaded_or_failed [OF b(1), of 3] b(2)
  have 2: "map_option status (jobs_store (snd (analyze_document 3 ''job2'' failed_state)) ''job2'')
     = Some Processing"
    by simp
  from 1 2 show ?thesis ..
qed

subsection \<open>The warning field\<close>

text \<open>
  As stated, claim C2 does not hold of a failed job: the reachable job \<open>job2\<close> has
  status \<open>failed\<close> and a warning, the message of the failure.
\<close>

theorem failed_job_has_warning_counterexample:
  "reachable failed_state
   \<and> jobs_store failed_state ''job2'' = Some failed_job
   \<and> status failed_job = Failed
   \<and> warning failed_job = Some docx_message"
  using reachable_failed_state by (simp add: failed_state_def failed_job_def)

text \<open>
  Claim C2, amended.  For every reachable job record, the warning is non-null if and only
  if the status is \<open>partial\<close> or \<open>failed\<close>; a job that is \<open>uploaded\<close>, \<open>processing\<close> or
  \<open>completed\<close> has no warning.
\<close>

theorem warning_iff_partial_or_failed:
  assumes "reachable s" and "jobs_store s jid = Some j"
  shows "warning j \<noteq> None \<longleftrightarrow> status j = Partial \<or> status j = Failed"
  using reachable_job_inv [OF assms] by (cases "status j") (auto simp: job_inv_def)

theorem warning_iff_partial_or_failed_witness:
  "(warning partial_job \<noteq> None \<longleftrightarrow> status partial_job = Partial \<or> status partial_job = Failed)
   \<and> status partial_job = Partial"
proof -
  have a: "jobs_store partial_state ''job1'' = Some partial_job"
    by (simp add: partial_state_def)
  have b: "status partial_job = Partial" by (simp add: partial_job_def)
  from warning_iff_partial_or_failed [OF reachable_partial_state a] b show ?thesis ..
qed

subsection \<open>The results field\<close>

text \<open>
  Claim C9.  For every reachable job record, the results are empty while the status is
  \<open>uploaded\<close> or \<open>processing\<close>, and once the status is \<open>completed\<close>, \<open>partial\<close> or
  \<open>failed\<close> the results have exactly the three keys \<open>summary\<close>, \<open>entities\<close>,
  \<open>sentiment\<close>, one entry each.
\<close>

theorem results_empty_until_terminal:
  assumes "reachable s" and "jobs_store s jid = Some j"
  shows "(status j = Uploaded \<or> status j = Processing \<longrightarrow> results j = [])
       \<and> (status j = Completed \<or> status j = Partial \<or> status j = Failed \<longrightarrow>
            map fst (results j) = [''summary'', ''entities'', ''sentiment''])"
  using reachable_job_inv [OF assms]
  by (cases "status j") (auto simp: job_inv_def agent_names_def)

theorem results_empty_until_terminal_witness:
  "status failed_job = Failed
   \<and> map fst (results failed_job) = [''summary'', ''entities'', ''sentiment'']
   \<and> status uploaded_job = Uploaded
   \<and> results uploaded_job = []"
proof -
  have a: "jobs_store failed_state ''job2'' = Some failed_job"
    by (simp add: failed_state_def)
  have b: "status failed_job = Failed" by (simp add: failed_job_def)
  have c: "jobs_store uploaded_state ''job1'' = Some uploaded_job"
    by (simp add: uploaded_state_def)
  have d: "status uploaded_job = Uploaded" by (simp add: uploaded_job_def)
  from results_empty_until_terminal [OF reachable_failed_state a] b
  have 1: "map fst (results failed_job) = [''summary'', ''entities'', ''sentiment'']"
    by blast
  from results_empty_until_terminal [OF reachable_uploaded_state c] d
  have 2: "results uploaded_job = []"
    by blast
  from 1 2 b d show ?thesis by blast
qed

end
